theory Spec2Isabelle
  imports Complex_Main "HOL-Library.Multiset"
begin

section \<open>Numbers\<close>

text \<open>
  The forecaster computes with NumPy \<open>float64\<close> values. A value is finite, or one of the
  two infinities, or NaN; a finite value is given by the real number it stands for. Every
  arithmetic operation yields the exact result rounded to the nearest \<open>float64\<close>, ties to
  the even significand, and a division by zero does not raise but yields a non-finite
  value. Signed zeros are not distinguished.
\<close>

datatype float64 = Finite real | PosInf | NegInf | NaN

fun is_finite :: "float64 \<Rightarrow> bool" where
  "is_finite (Finite _) = True"
| "is_finite _ = False"

text \<open>Rounding half to even, to an integer.\<close>

definition round_half_even :: "real \<Rightarrow> int" where
  "round_half_even x =
     (let f = \<lfloor>x\<rfloor>; r = x - of_int f
      in if r < 1 / 2 then f else if 1 / 2 < r then f + 1
         else if even f then f else f + 1)"

text \<open>
  The binary exponent of a positive real: the \<open>e\<close> with \<open>2 ^ e \<le> x < 2 ^ (e + 1)\<close>, found by
  halving or doubling. It is looked for between \<open>-1022\<close>, the exponent of the subnormal
  numbers, and \<open>1024\<close>, from where on every value overflows.
\<close>

fun expo_up :: "nat \<Rightarrow> real \<Rightarrow> int" where
  "expo_up 0 x = 0"
| "expo_up (Suc n) x = (if x < 2 then 0 else 1 + expo_up n (x / 2))"

fun expo_down :: "nat \<Rightarrow> real \<Rightarrow> int" where
  "expo_down 0 x = 0"
| "expo_down (Suc n) x = (if 1 \<le> x then 0 else expo_down n (2 * x) - 1)"

definition f64_exponent :: "real \<Rightarrow> int" where
  "f64_exponent x = (if 1 \<le> \<bar>x\<bar> then expo_up 1024 \<bar>x\<bar> else expo_down 1022 \<bar>x\<bar>)"

definition pow2 :: "int \<Rightarrow> real" where
  "pow2 k = (if 0 \<le> k then 2 ^ nat k else 1 / 2 ^ nat (- k))"

text \<open>
  The nearest number with a significand of 53 bits: the reals of exponent \<open>e\<close> are
  rounded to the multiples of \<open>2 ^ (e - 52)\<close>. \<open>f64_round\<close> leaves the range open above;
  \<open>fl\<close> is the rounding of an arithmetic result, which overflows to an infinity.
\<close>

definition f64_round :: "real \<Rightarrow> real" where
  "f64_round x =
     (if x = 0 then 0
      else let q = pow2 (f64_exponent x - 52)
           in of_int (round_half_even (x / q)) * q)"

definition fl :: "real \<Rightarrow> float64" where
  "fl x =
     (let r = f64_round x
      in if 2 ^ 1024 \<le> \<bar>r\<bar> then (if 0 < x then PosInf else NegInf) else Finite r)"

fun fneg :: "float64 \<Rightarrow> float64" where
  "fneg (Finite a) = Finite (- a)"
| "fneg PosInf = NegInf"
| "fneg NegInf = PosInf"
| "fneg NaN = NaN"

fun fadd :: "float64 \<Rightarrow> float64 \<Rightarrow> float64" where
  "fadd NaN _ = NaN"
| "fadd _ NaN = NaN"
| "fadd (Finite a) (Finite b) = fl (a + b)"
| "fadd PosInf NegInf = NaN"
| "fadd NegInf PosInf = NaN"
| "fadd PosInf _ = PosInf"
| "fadd _ PosInf = PosInf"
| "fadd NegInf _ = NegInf"
| "fadd _ NegInf = NegInf"

definition fsub :: "float64 \<Rightarrow> float64 \<Rightarrow> float64" where
  "fsub x y = fadd x (fneg y)"

fun negative :: "float64 \<Rightarrow> bool" where
  "negative (Finite a) = (a < 0)"
| "negative NegInf = True"
| "negative _ = False"

fun fmul :: "float64 \<Rightarrow> float64 \<Rightarrow> float64" where
  "fmul NaN _ = NaN"
| "fmul _ NaN = NaN"
| "fmul (Finite a) (Finite b) = fl (a * b)"
| "fmul x y =
     (if x = Finite 0 \<or> y = Finite 0 then NaN
      else if negative x = negative y then PosInf else NegInf)"

text \<open>
  NumPy division: \<open>x / 0\<close> is \<open>inf\<close>, \<open>-inf\<close> or \<open>nan\<close> by the sign of \<open>x\<close>
  (with a warning, never an exception).
\<close>

fun fdiv :: "float64 \<Rightarrow> float64 \<Rightarrow> float64" where
  "fdiv NaN _ = NaN"
| "fdiv _ NaN = NaN"
| "fdiv (Finite a) (Finite b) =
     (if b \<noteq> 0 then fl (a / b)
      else if 0 < a then PosInf else if a < 0 then NegInf else NaN)"
| "fdiv (Finite a) _ = Finite 0"
| "fdiv x (Finite b) = (if negative x = (b < 0) then PosInf else NegInf)"
| "fdiv _ _ = NaN"

fun fabs :: "float64 \<Rightarrow> float64" where
  "fabs (Finite a) = Finite \<bar>a\<bar>"
| "fabs PosInf = PosInf"
| "fabs NegInf = PosInf"
| "fabs NaN = NaN"

text \<open>The comparison \<open>x > y\<close>: false as soon as one side is NaN.\<close>

fun fgt :: "float64 \<Rightarrow> float64 \<Rightarrow> bool" where
  "fgt NaN _ = False"
| "fgt _ NaN = False"
| "fgt (Finite a) (Finite b) = (b < a)"
| "fgt PosInf y = (y \<noteq> PosInf)"
| "fgt x NegInf = (x \<noteq> NegInf)"
| "fgt _ _ = False"

text \<open>\<open>x != 0\<close>: NaN and the infinities differ from zero.\<close>

fun fne0 :: "float64 \<Rightarrow> bool" where
  "fne0 (Finite a) = (a \<noteq> 0)"
| "fne0 _ = True"

text \<open>
  \<open>round(x, 2)\<close> on a NumPy \<open>float64\<close> is NumPy's rounding: the value is multiplied by 100,
  rounded half to even to a whole number by \<open>rint\<close>, and divided by 100, each of the two
  operations rounding its result to a \<open>float64\<close>. Non-finite values pass through unchanged.
\<close>

fun rint :: "float64 \<Rightarrow> float64" where
  "rint (Finite x) = Finite (of_int (round_half_even x))"
| "rint x = x"

definition round2 :: "float64 \<Rightarrow> float64" where
  "round2 x = fdiv (rint (fmul x (Finite 100))) (Finite 100)"

text \<open>\<open>int(x)\<close> on a finite float truncates toward zero.\<close>

definition py_int :: "real \<Rightarrow> int" where
  "py_int x = (if 0 \<le> x then \<lfloor>x\<rfloor> else \<lceil>x\<rceil>)"

text \<open>
  \<open>np.mean\<close> of an array: the sum over the count; NaN on an empty array. The entries are
  added from left to right, which is NumPy's order on fewer than eight entries; on a longer
  array NumPy adds in blocks, and the last bits of the sum can differ.
\<close>

definition np_mean :: "float64 list \<Rightarrow> float64" where
  "np_mean xs =
     (if xs = [] then NaN
      else fdiv (foldl fadd (Finite 0) xs) (Finite (of_nat (length xs))))"

text \<open>
  The pandas \<open>Series.mean\<close> skips the NaN entries; it is NaN when nothing is left.
\<close>

definition pd_mean :: "float64 list \<Rightarrow> float64" where
  "pd_mean xs = np_mean (filter (\<lambda>x. x \<noteq> NaN) xs)"

text \<open>\<open>Series.diff\<close>: the first entry is NaN, every other the change from its predecessor.\<close>

fun changes :: "real list \<Rightarrow> float64 list" where
  "changes (a # b # xs) = fl (b - a) # changes (b # xs)"
| "changes _ = []"

definition diff :: "real list \<Rightarrow> float64 list" where
  "diff xs = (if xs = [] then [] else NaN # changes xs)"

text \<open>\<open>head(n)\<close> and \<open>tail(n)\<close> of a frame, for a non-negative \<open>n\<close>.\<close>

definition head :: "nat \<Rightarrow> 'a list \<Rightarrow> 'a list" where
  "head n xs = take n xs"

definition tail :: "nat \<Rightarrow> 'a list \<Rightarrow> 'a list" where
  "tail n xs = drop (length xs - n) xs"

section \<open>Errors, slices and indexing\<close>

text \<open>An exception is recorded by the name of its class.\<close>

datatype py_error = Raise string

text \<open>
  Positional slices \<open>xs[:i]\<close> and \<open>xs[i:]\<close> with Python's treatment of negative and
  out-of-range bounds.
\<close>

definition slice_bound :: "nat \<Rightarrow> int \<Rightarrow> nat" where
  "slice_bound n i = (if i < 0 then nat (max 0 (int n + i)) else min n (nat i))"

definition slice_to :: "'a list \<Rightarrow> int \<Rightarrow> 'a list" where
  "slice_to xs i = take (slice_bound (length xs) i) xs"

definition slice_from :: "'a list \<Rightarrow> int \<Rightarrow> 'a list" where
  "slice_from xs i = drop (slice_bound (length xs) i) xs"

text \<open>\<open>iloc[i]\<close>: negative positions count from the end; out of range raises.\<close>

definition iloc :: "'a list \<Rightarrow> int \<Rightarrow> py_error + 'a" where
  "iloc rows pos =
     (if 0 \<le> pos \<and> pos < int (length rows) then Inr (rows ! nat pos)
      else if pos < 0 \<and> - int (length rows) \<le> pos
        then Inr (rows ! nat (int (length rows) + pos))
      else Inl (Raise ''IndexError''))"

text \<open>
  A method of the forecaster returns a dictionary: the empty one on every failure path,
  a filled one otherwise.
\<close>

datatype 'a reply = Empty | Filled 'a

section \<open>The Prophet library\<close>

text \<open>
  Prophet is an external library. Its numerical core is a parameter \<open>stan\<close> of the model:
  given a configuration and a history it either fails or yields the fitted curve, which
  gives the forecast components on every date. What the forecaster relies on structurally
  is written out as the library documents it: \<open>fit\<close> refuses a history of fewer than two
  rows, a model that was not fitted refuses \<open>make_future_dataframe\<close> and \<open>predict\<close>,
  \<open>make_future_dataframe\<close> appends the \<open>periods\<close> days after the last history date to the
  distinct sorted history dates, and \<open>predict\<close> returns one row per date, ordered by date.
  Dates are day numbers.
\<close>

record components =
  trend :: real
  yhat :: real
  yhat_lower :: real
  yhat_upper :: real

type_synonym curve = "int \<Rightarrow> components"

type_synonym frame = "(int \<times> components) list"

record prophet_config =
  daily_seasonality :: bool
  weekly_seasonality :: bool
  yearly_seasonality :: bool
  multiplicative :: bool
  changepoint_prior_scale :: real
  interval_width :: real

type_synonym stan = "prophet_config \<Rightarrow> (int \<times> int) list \<Rightarrow> curve option"

text \<open>A Prophet object: its configuration and, once fitted, the history dates and the curve.\<close>

datatype prophet = Prophet prophet_config "(int list \<times> curve) option"

fun Prophet_fit :: "stan \<Rightarrow> prophet \<Rightarrow> (int \<times> int) list \<Rightarrow> py_error + prophet" where
  "Prophet_fit st (Prophet cfg _) df =
     (if length df < 2 then Inl (Raise ''ValueError'')
      else case st cfg df of
             None \<Rightarrow> Inl (Raise ''RuntimeError'')
           | Some c \<Rightarrow> Inr (Prophet cfg (Some (sort (remdups (map fst df)), c))))"

fun make_future_dataframe :: "prophet \<Rightarrow> int \<Rightarrow> py_error + int list" where
  "make_future_dataframe (Prophet cfg None) periods = Inl (Raise ''Exception'')"
| "make_future_dataframe (Prophet cfg (Some (dates, c))) periods =
     (if periods + 1 < 0 \<or> dates = [] then Inl (Raise ''ValueError'')
      else Inr (dates @ [last dates + 1 .. last dates + periods]))"

fun Prophet_predict :: "prophet \<Rightarrow> int list \<Rightarrow> py_error + frame" where
  "Prophet_predict (Prophet cfg None) df = Inl (Raise ''Exception'')"
| "Prophet_predict (Prophet cfg (Some (dates, c))) df =
     (if df = [] then Inl (Raise ''ValueError'')
      else Inr (map (\<lambda>d. (d, c d)) (sort df)))"

section \<open>The forecaster\<close>

record metric =
  date :: int
  total_vehicles :: int

record forecaster =
  model :: "prophet option"
  training_data :: "(int \<times> int) list option"
  forecast_result :: "frame option"

definition init :: forecaster where
  "init = \<lparr>model = None, training_data = None, forecast_result = None\<rparr>"

text \<open>
  \<open>prepare_data\<close>: the columns \<open>ds\<close> and \<open>y\<close> of the records, sorted by \<open>ds\<close>. An empty
  list of records gives a frame without a \<open>date\<close> column, and reading it raises. The
  order pandas gives to rows of equal date is not fixed by its default sort; the model
  keeps their input order, and no theorem below depends on that choice.
\<close>

definition prepare_data :: "metric list \<Rightarrow> py_error + (int \<times> int) list" where
  "prepare_data historical_data =
     (if historical_data = [] then Inl (Raise ''KeyError'')
      else Inr (sort_key fst (map (\<lambda>r. (date r, total_vehicles r)) historical_data)))"

definition train_config :: prophet_config where
  "train_config =
     \<lparr>daily_seasonality = False, weekly_seasonality = False, yearly_seasonality = False,
      multiplicative = False, changepoint_prior_scale = 1 / 1000, interval_width = 9 / 10\<rparr>"

text \<open>
  \<open>train_model\<close>: every exception of the body is caught and turned into \<open>False\<close>. The
  assignments made before the failing statement stay: \<open>training_data\<close> is stored before
  the model is built, and the new, still unfitted Prophet object is stored in \<open>model\<close>
  before \<open>fit\<close> runs.
\<close>

definition train_model :: "stan \<Rightarrow> metric list \<Rightarrow> forecaster \<Rightarrow> (py_error + bool) \<times> forecaster" where
  "train_model st historical_data s =
     (case prepare_data historical_data of
        Inl e \<Rightarrow> (Inr False, s)
      | Inr df \<Rightarrow>
          (let s1 = s\<lparr>training_data := Some df\<rparr>;
               s2 = s1\<lparr>model := Some (Prophet train_config None)\<rparr>
           in case Prophet_fit st (Prophet train_config None) df of
                Inl e \<Rightarrow> (Inr False, s2)
              | Inr m \<Rightarrow> (Inr True, s2\<lparr>model := Some m\<rparr>)))"

subsection \<open>Forecast generation\<close>

record prediction =
  p_date :: int
  predicted_vehicles :: int
  lower_bound :: int
  upper_bound :: int
  confidence :: real

record milestone =
  m_predicted_vehicles :: int
  growth_from_current :: int
  growth_percentage :: float64

record forecast =
  forecast_horizon :: int
  current_vehicles :: int
  current_date :: int
  predictions :: "prediction list"
  growth_30_day :: milestone
  growth_90_day :: milestone
  growth_180_day :: milestone
  avg_daily_growth :: int
  confidence_level :: real

text \<open>
  One entry of \<open>growth_metrics\<close>, from the forecast row of the checkpoint and the last
  observed value. The source writes the same three expressions for each checkpoint. The
  last observed value is a 64-bit integer, converted to \<open>float64\<close> where it meets the
  \<open>float64\<close> \<open>yhat\<close>; their difference cannot overflow, so that \<open>int()\<close> is applied to
  a finite value. The quotient is a \<open>float64\<close> division by the last observed value, with
  no test for zero.
\<close>

definition growth_metric :: "components \<Rightarrow> int \<Rightarrow> milestone" where
  "growth_metric e last_historical_value =
     (let last_value = f64_round (of_int last_historical_value)
      in \<lparr>m_predicted_vehicles = py_int (yhat e),
          growth_from_current = py_int (f64_round (yhat e - last_value)),
          growth_percentage =
            round2 (fmul (fdiv (fsub (Finite (yhat e)) (Finite last_value)) (Finite last_value))
                         (Finite 100))\<rparr>)"

definition to_prediction :: "int \<times> components \<Rightarrow> prediction" where
  "to_prediction row =
     \<lparr>p_date = fst row,
      predicted_vehicles = py_int (yhat (snd row)),
      lower_bound = py_int (yhat_lower (snd row)),
      upper_bound = py_int (yhat_upper (snd row)),
      confidence = 9 / 10\<rparr>"

text \<open>
  The part of \<open>generate_forecast\<close> after the forecast frame is stored: the future rows,
  the predictions, the three checkpoints and the result. The fields \<open>model_type\<close> (a
  constant) and \<open>timestamp\<close> (the clock) are left out.
\<close>

definition summarise :: "int \<Rightarrow> frame \<Rightarrow> (int \<times> int) list option \<Rightarrow> py_error + forecast" where
  "summarise days_ahead fc td_opt =
     (case td_opt of
        None \<Rightarrow> Inl (Raise ''TypeError'')
      | Some td \<Rightarrow>
          if td = [] then Inl (Raise ''IndexError'')
          else
            let last_historical_date = Max (set (map fst td));
                last_historical_value = snd (last td);
                future_forecast = filter (\<lambda>row. last_historical_date < fst row) fc;
                n = int (length future_forecast)
            in case iloc future_forecast (min 29 (n - 1)) of
                 Inl e \<Rightarrow> Inl e
               | Inr end_30_days \<Rightarrow>
                  (case iloc future_forecast (min 89 (n - 1)) of
                     Inl e \<Rightarrow> Inl e
                   | Inr end_90_days \<Rightarrow>
                      (case (if 180 \<le> n then iloc future_forecast (min 179 (n - 1))
                             else iloc future_forecast (- 1)) of
                         Inl e \<Rightarrow> Inl e
                       | Inr end_180_days \<Rightarrow>
                           Inr \<lparr>forecast_horizon = days_ahead,
                                current_vehicles = last_historical_value,
                                current_date = last_historical_date,
                                predictions = map to_prediction future_forecast,
                                growth_30_day = growth_metric (snd end_30_days) last_historical_value,
                                growth_90_day = growth_metric (snd end_90_days) last_historical_value,
                                growth_180_day = growth_metric (snd end_180_days) last_historical_value,
                                avg_daily_growth =
                                  py_int (f64_round
                                    (f64_round (yhat (snd end_90_days)
                                                - f64_round (of_int last_historical_value)) / 90)),
                                confidence_level = 9 / 10\<rparr>)))"

text \<open>
  The body of the \<open>try\<close> block, with the state it leaves behind: the forecast frame is
  stored as soon as \<open>predict\<close> has returned, also when a later statement raises.
\<close>

definition forecast_body :: "int \<Rightarrow> prophet \<Rightarrow> forecaster \<Rightarrow> (py_error + forecast) \<times> forecaster" where
  "forecast_body days_ahead m s =
     (case make_future_dataframe m days_ahead of
        Inl e \<Rightarrow> (Inl e, s)
      | Inr future \<Rightarrow>
         (case Prophet_predict m future of
            Inl e \<Rightarrow> (Inl e, s)
          | Inr fc \<Rightarrow>
              (summarise days_ahead fc (training_data s), s\<lparr>forecast_result := Some fc\<rparr>)))"

text \<open>
  \<open>generate_forecast\<close>: without a model it returns the empty dictionary at once; every
  exception of the body is caught and gives the empty dictionary too.
\<close>

definition generate_forecast :: "int \<Rightarrow> forecaster \<Rightarrow> (py_error + forecast reply) \<times> forecaster" where
  "generate_forecast days_ahead s =
     (case model s of
        None \<Rightarrow> (Inr Empty, s)
      | Some m \<Rightarrow>
         (case forecast_body days_ahead m s of
            (Inl e, s') \<Rightarrow> (Inr Empty, s')
          | (Inr r, s') \<Rightarrow> (Inr (Filled r), s')))"

subsection \<open>Validation\<close>

record metrics =
  mae :: float64
  rmse :: float64
  mape :: float64
  test_size :: int

definition validation_config :: prophet_config where
  "validation_config =
     \<lparr>daily_seasonality = False, weekly_seasonality = True, yearly_seasonality = True,
      multiplicative = True, changepoint_prior_scale = 5 / 100, interval_width = 9 / 10\<rparr>"

text \<open>
  The two scikit-learn scores on arrays of the same length, which is not zero where
  they are called: \<open>predict\<close> has raised before on an empty test frame. They are
  library functions, given here by their exact values.
\<close>

definition mean_absolute_error :: "real list \<Rightarrow> real list \<Rightarrow> real" where
  "mean_absolute_error y_true y_pred =
     sum_list (map2 (\<lambda>t p. \<bar>t - p\<bar>) y_true y_pred) / of_nat (length y_true)"

definition mean_squared_error :: "real list \<Rightarrow> real list \<Rightarrow> real" where
  "mean_squared_error y_true y_pred =
     sum_list (map2 (\<lambda>t p. (t - p)\<^sup>2) y_true y_pred) / of_nat (length y_true)"

text \<open>
  The percentage error is taken over every held-out point: each term divides by the
  true value, whatever it is.
\<close>

definition mean_abs_pct :: "real list \<Rightarrow> real list \<Rightarrow> float64" where
  "mean_abs_pct y_true y_pred =
     fmul (np_mean (map2 (\<lambda>t p. fabs (fdiv (fsub (Finite t) (Finite p)) (Finite t)))
                         y_true y_pred))
          (Finite 100)"

definition validate_body :: "stan \<Rightarrow> int \<Rightarrow> (int \<times> int) list \<Rightarrow> py_error + metrics" where
  "validate_body st tsize td =
     (let train_data = slice_to td (- tsize);
          test_data = slice_from td (- tsize)
      in case Prophet_fit st (Prophet validation_config None) train_data of
           Inl e \<Rightarrow> Inl e
         | Inr temp_model \<Rightarrow>
            (case Prophet_predict temp_model (map fst test_data) of
               Inl e \<Rightarrow> Inl e
             | Inr fc \<Rightarrow>
                 let y_true = map (\<lambda>row. f64_round (real_of_int (snd row))) test_data;
                     y_pred = map (\<lambda>row. yhat (snd row)) fc
                 in Inr \<lparr>mae = round2 (Finite (mean_absolute_error y_true y_pred)),
                         rmse = round2 (Finite (sqrt (mean_squared_error y_true y_pred))),
                         mape = round2 (mean_abs_pct y_true y_pred),
                         test_size = tsize\<rparr>))"

definition validate_model :: "stan \<Rightarrow> int \<Rightarrow> forecaster \<Rightarrow> py_error + metrics reply" where
  "validate_model st tsize s =
     (case model s of
        None \<Rightarrow> Inr Empty
      | Some m \<Rightarrow>
         (case training_data s of
            None \<Rightarrow> Inr Empty
          | Some td \<Rightarrow>
             (case validate_body st tsize td of
                Inl e \<Rightarrow> Inr Empty
              | Inr r \<Rightarrow> Inr (Filled r))))"

subsection \<open>Trend analysis\<close>

datatype direction = accelerating | decelerating

record analysis =
  avg_daily_trend_change :: float64
  recent_30day_trend :: float64
  historical_30day_trend :: float64
  trend_direction :: direction
  growth_momentum :: float64

text \<open>
  The windows are cut from the stored forecast frame, which holds the history rows
  followed by the future rows.
\<close>

definition recent_trend :: "frame \<Rightarrow> float64" where
  "recent_trend fr = pd_mean (tail 30 (diff (map (\<lambda>row. trend (snd row)) fr)))"

definition historical_trend :: "frame \<Rightarrow> float64" where
  "historical_trend fr = pd_mean (head 30 (diff (map (\<lambda>row. trend (snd row)) fr)))"

definition get_trend_analysis :: "forecaster \<Rightarrow> py_error + analysis reply" where
  "get_trend_analysis s =
     (case forecast_result s of
        None \<Rightarrow> Inr Empty
      | Some fr \<Rightarrow>
          Inr (Filled
            \<lparr>avg_daily_trend_change = round2 (pd_mean (diff (map (\<lambda>row. trend (snd row)) fr))),
             recent_30day_trend = round2 (recent_trend fr),
             historical_30day_trend = round2 (historical_trend fr),
             trend_direction =
               (if fgt (recent_trend fr) (historical_trend fr) then accelerating else decelerating),
             growth_momentum =
               (if fne0 (historical_trend fr)
                then round2 (fmul (fsub (fdiv (recent_trend fr) (historical_trend fr)) (Finite 1))
                                  (Finite 100))
                else Finite 0)\<rparr>))"

section \<open>Sample inputs\<close>

text \<open>A stand-in for the fitting routine: a straight line at ten vehicles a day, with a band of one.\<close>

definition stan_lin :: stan where
  "stan_lin cfg df =
     Some (\<lambda>d. \<lparr>trend = 10 * of_int d, yhat = 10 * of_int d,
                 yhat_lower = 10 * of_int d - 1, yhat_upper = 10 * of_int d + 1\<rparr>)"

definition one_day :: "metric list" where
  "one_day = [\<lparr>date = 1, total_vehicles = 5\<rparr>]"

definition three_days :: "metric list" where
  "three_days =
     [\<lparr>date = 1, total_vehicles = 1\<rparr>, \<lparr>date = 2, total_vehicles = 2\<rparr>,
      \<lparr>date = 3, total_vehicles = 3\<rparr>]"

definition same_day_twice :: "metric list" where
  "same_day_twice = [\<lparr>date = 1, total_vehicles = 10\<rparr>, \<lparr>date = 1, total_vehicles = 20\<rparr>]"

definition trained :: forecaster where
  "trained = snd (train_model stan_lin three_days init)"

text \<open>
  A second stand-in whose band widens with the date while its bounds are not whole numbers,
  and a history whose last observed count is zero.
\<close>

definition stan_frac :: stan where
  "stan_frac cfg df =
     Some (\<lambda>d. \<lparr>trend = 3 / 4 * of_int d + 249 / 20, yhat = 3 / 4 * of_int d + 249 / 20,
                 yhat_lower = 3 / 5 * of_int d + 17 / 2, yhat_upper = 9 / 10 * of_int d + 82 / 5\<rparr>)"

definition trained_frac :: forecaster where
  "trained_frac = snd (train_model stan_frac three_days init)"

definition zero_last :: "metric list" where
  "zero_last =
     [\<lparr>date = 1, total_vehicles = 1\<rparr>, \<lparr>date = 2, total_vehicles = 2\<rparr>,
      \<lparr>date = 3, total_vehicles = 0\<rparr>]"

definition trained_zero :: forecaster where
  "trained_zero = snd (train_model stan_lin zero_last init)"

text \<open>
  A third stand-in, whose lower bound lies above its point forecast: the forecaster takes
  the three columns as the library gives them.
\<close>

definition stan_cross :: stan where
  "stan_cross cfg df = Some (\<lambda>d. \<lparr>trend = 10, yhat = 10, yhat_lower = 11, yhat_upper = 12\<rparr>)"

definition trained_cross :: forecaster where
  "trained_cross = snd (train_model stan_cross three_days init)"

text \<open>What validation with a one-day window returns on the history that ends in a zero count.\<close>

definition metrics_zero :: metrics where
  "metrics_zero = \<lparr>mae = Finite 30, rmse = Finite 30, mape = PosInf, test_size = 1\<rparr>"

text \<open>
  The percentage stored in \<open>forecast_lin\<close> below is the \<open>float64\<close> nearest to 1566.67.
\<close>

definition forecast_lin :: forecast where
  "forecast_lin =
     \<lparr>forecast_horizon = 2, current_vehicles = 3, current_date = 3,
      predictions =
        [\<lparr>p_date = 4, predicted_vehicles = 40, lower_bound = 39, upper_bound = 41,
          confidence = 9 / 10\<rparr>,
         \<lparr>p_date = 5, predicted_vehicles = 50, lower_bound = 49, upper_bound = 51,
          confidence = 9 / 10\<rparr>],
      growth_30_day =
        \<lparr>m_predicted_vehicles = 50, growth_from_current = 47,
         growth_percentage = Finite (861285940943913 / 549755813888)\<rparr>,
      growth_90_day =
        \<lparr>m_predicted_vehicles = 50, growth_from_current = 47,
         growth_percentage = Finite (861285940943913 / 549755813888)\<rparr>,
      growth_180_day =
        \<lparr>m_predicted_vehicles = 50, growth_from_current = 47,
         growth_percentage = Finite (861285940943913 / 549755813888)\<rparr>,
      avg_daily_growth = 0, confidence_level = 9 / 10\<rparr>"

text \<open>
  A history that ends at 160 vehicles with a forecast of 183 for the next day: the growth
  is 14.375 percent in exact arithmetic, and 14.374999999999998 in \<open>float64\<close>. The
  percentage stored in \<open>forecast_tie\<close> is the \<open>float64\<close> nearest to 14.37.
\<close>

definition two_days :: "metric list" where
  "two_days = [\<lparr>date = 1, total_vehicles = 100\<rparr>, \<lparr>date = 2, total_vehicles = 160\<rparr>]"

definition stan_tie :: stan where
  "stan_tie cfg df =
     Some (\<lambda>d. \<lparr>trend = 183, yhat = 183, yhat_lower = 182, yhat_upper = 184\<rparr>)"

definition trained_tie :: forecaster where
  "trained_tie = snd (train_model stan_tie two_days init)"

definition forecast_tie :: forecast where
  "forecast_tie =
     \<lparr>forecast_horizon = 1, current_vehicles = 160, current_date = 2,
      predictions =
        [\<lparr>p_date = 3, predicted_vehicles = 183, lower_bound = 182, upper_bound = 184,
          confidence = 9 / 10\<rparr>],
      growth_30_day =
        \<lparr>m_predicted_vehicles = 183, growth_from_current = 23,
         growth_percentage = Finite (8089590830664253 / 562949953421312)\<rparr>,
      growth_90_day =
        \<lparr>m_predicted_vehicles = 183, growth_from_current = 23,
         growth_percentage = Finite (8089590830664253 / 562949953421312)\<rparr>,
      growth_180_day =
        \<lparr>m_predicted_vehicles = 183, growth_from_current = 23,
         growth_percentage = Finite (8089590830664253 / 562949953421312)\<rparr>,
      avg_daily_growth = 0, confidence_level = 9 / 10\<rparr>"

section \<open>Properties\<close>

subsection \<open>Evaluating float64 arithmetic\<close>

lemma expo_up_eval:
  "expo_up n x = (if n = 0 then 0 else if x < 2 then 0 else 1 + expo_up (n - 1) (x / 2))"
  by (cases n) simp_all

lemma expo_down_eval:
  "expo_down n x = (if n = 0 then 0 else if 1 \<le> x then 0 else expo_down (n - 1) (2 * x) - 1)"
  by (cases n) simp_all

lemmas eval_f64 =
  round2_def fsub_def fl_def f64_round_def f64_exponent_def pow2_def expo_up_eval expo_down_eval
  round_half_even_def Let_def

text \<open>The values of the operations that the sample inputs meet.\<close>

lemma f64_round_values:
  "f64_round 0 = 0" "f64_round 3 = 3" "f64_round 23 = 23" "f64_round 40 = 40"
  "f64_round 47 = 47" "f64_round 160 = 160"
  "f64_round (47 / 90) = 4703759610809185 / 9007199254740992"
  "f64_round (4 / 9) = 2001599834386887 / 4503599627370496"
  "f64_round (23 / 90) = 287729976193115 / 1125899906842624"
  by (simp_all add: eval_f64)

lemma f64_round_0: "f64_round 0 = 0"
  by (simp add: f64_round_def)

lemma round2_values:
  "round2 (Finite 30) = Finite 30" "round2 PosInf = PosInf"
  "round2 (Finite (3445136433698133 / 2199023255552)) = Finite (861285940943913 / 549755813888)"
  "round2 (Finite (8092405580431359 / 562949953421312)) =
     Finite (8089590830664253 / 562949953421312)"
  by (simp_all add: eval_f64)

lemma pct_zero_count: "fabs (fdiv (fsub (Finite 0) (Finite 30)) (Finite 0)) = PosInf"
  by (simp add: eval_f64)

lemma pct_50_3:
  "fmul (fdiv (fsub (Finite 50) (Finite 3)) (Finite 3)) (Finite 100) =
     Finite (3445136433698133 / 2199023255552)"
  by (simp add: eval_f64)

lemma pct_183_160:
  "fmul (fdiv (fsub (Finite 183) (Finite 160)) (Finite 160)) (Finite 100) =
     Finite (8092405580431359 / 562949953421312)"
  by (simp add: eval_f64)

lemma pct_40_0: "fmul (fdiv (fsub (Finite 40) (Finite 0)) (Finite 0)) (Finite 100) = PosInf"
  by (simp add: eval_f64)

lemmas eval_values = f64_round_values round2_values pct_zero_count pct_50_3 pct_183_160 pct_40_0


lemma trained_eq:
  "trained =
     \<lparr>model = Some (Prophet train_config
                (Some ([1, 2, 3], the (stan_lin train_config [(1, 1), (2, 2), (3, 3)])))),
      training_data = Some [(1, 1), (2, 2), (3, 3)], forecast_result = None\<rparr>"
  by (simp add: trained_def train_model_def prepare_data_def three_days_def init_def stan_lin_def)

subsection \<open>Forecasting before fitting\<close>

text \<open>
  C1 (as amended). On a forecaster with no model, or with a Prophet object that was never
  fitted, \<open>generate_forecast\<close> does not raise: it returns the empty dictionary and leaves
  the forecaster as it was. The code has no \<open>ModelNotFittedError\<close>; the guard logs and
  returns.
\<close>

theorem generate_forecast_not_fitted:
  "model s = None \<or> model s = Some (Prophet cfg None) \<Longrightarrow>
   generate_forecast days_ahead s = (Inr Empty, s)"
  by (auto simp: generate_forecast_def forecast_body_def)

theorem generate_forecast_not_fitted_witness:
  "(model init = None \<or> model init = Some (Prophet train_config None)) \<and>
   generate_forecast 180 init = (Inr Empty, init)"
  using generate_forecast_not_fitted [of init train_config 180] by (simp add: init_def)

theorem predict_before_fit_counterexample:
  "fst (generate_forecast 180 init) = Inr Empty \<and>
   fst (generate_forecast 180 init) \<noteq> Inl (Raise ''ModelNotFittedError'')"
  by (simp add: generate_forecast_def init_def)

subsection \<open>Data preparation\<close>

text \<open>
  C8 (as amended). For every non-empty sequence of records, \<open>prepare_data\<close> returns the
  rows sorted ascending by date and keeps every row: rows that share a date all stay, so
  the dates are non-decreasing, not strictly increasing. Nothing is deduplicated.
\<close>

theorem prepare_data_sorted_keeps_every_row:
  "historical_data \<noteq> [] \<Longrightarrow>
   \<exists>df. prepare_data historical_data = Inr df \<and> sorted (map fst df) \<and>
        mset df = mset (map (\<lambda>r. (date r, total_vehicles r)) historical_data)"
  by (simp add: prepare_data_def)

theorem prepare_data_sorted_keeps_every_row_witness:
  "same_day_twice \<noteq> [] \<and>
   (\<exists>df. prepare_data same_day_twice = Inr df \<and> sorted (map fst df) \<and>
        mset df = mset (map (\<lambda>r. (date r, total_vehicles r)) same_day_twice))"
  using prepare_data_sorted_keeps_every_row [of same_day_twice]
  by (simp add: same_day_twice_def)

theorem prepare_data_dedup_counterexample:
  "prepare_data same_day_twice = Inr [(1, 10), (1, 20)] \<and>
   prepare_data [] = Inl (Raise ''KeyError'')"
  by (simp add: prepare_data_def same_day_twice_def)

subsection \<open>Training\<close>

text \<open>
  C10 (as amended). \<open>train_model\<close> never propagates an exception; it returns \<open>True\<close>
  exactly when preparation and fitting both succeed, and \<open>False\<close> otherwise. It is not
  atomic: when fitting fails after preparation, \<open>training_data\<close> holds the newly prepared
  series and \<open>model\<close> holds the new, unfitted Prophet object built for this call, not
  its previous value.
\<close>

theorem train_model_total_not_atomic:
  "(\<exists>b. fst (train_model st d s) = Inr b) \<and>
   (fst (train_model st d s) = Inr True \<longleftrightarrow>
      (\<exists>df m. prepare_data d = Inr df \<and>
              Prophet_fit st (Prophet train_config None) df = Inr m)) \<and>
   (\<forall>df e. prepare_data d = Inr df \<longrightarrow>
           Prophet_fit st (Prophet train_config None) df = Inl e \<longrightarrow>
      train_model st d s =
        (Inr False,
         s\<lparr>training_data := Some df, model := Some (Prophet train_config None)\<rparr>))"
  by (auto simp add: train_model_def Let_def simp del: Prophet_fit.simps split: sum.splits)

theorem train_model_total_not_atomic_witness:
  "prepare_data one_day = Inr [(1, 5)] \<and>
   Prophet_fit stan_lin (Prophet train_config None) [(1, 5)] = Inl (Raise ''ValueError'') \<and>
   train_model stan_lin one_day trained =
     (Inr False,
      trained\<lparr>training_data := Some [(1, 5)], model := Some (Prophet train_config None)\<rparr>)"
  using train_model_total_not_atomic [of stan_lin one_day trained]
  by (simp add: prepare_data_def one_day_def)

theorem train_model_keeps_model_counterexample:
  "fst (train_model stan_lin one_day trained) = Inr False \<and>
   training_data (snd (train_model stan_lin one_day trained)) = Some [(1, 5)] \<and>
   model (snd (train_model stan_lin one_day trained)) \<noteq> model trained"
  by (simp add: train_model_def prepare_data_def one_day_def trained_eq)

subsection \<open>Validation with a window as long as the series\<close>

lemma slice_to_all: "int (length xs) \<le> k \<Longrightarrow> slice_to xs (- k) = []"
  by (auto simp: slice_to_def slice_bound_def)

text \<open>
  C9 (as amended). When the test window is at least as long as the stored series,
  \<open>validate_model\<close> does not raise: the training slice is empty, the fit on it fails, the
  exception is caught, and the empty dictionary is returned. The code has no
  \<open>InsufficientDataError\<close>.
\<close>

theorem validate_model_window_too_large:
  "training_data s = Some td \<Longrightarrow> int (length td) \<le> tsize \<Longrightarrow>
   validate_model st tsize s = Inr Empty"
  by (simp add: validate_model_def validate_body_def slice_to_all split: option.splits)

theorem validate_model_window_too_large_witness:
  "training_data trained = Some [(1, 1), (2, 2), (3, 3)] \<and>
   int (length [(1::int, 1::int), (2, 2), (3, 3)]) \<le> 3 \<and>
   validate_model stan_lin 3 trained = Inr Empty"
  using validate_model_window_too_large [of trained "[(1, 1), (2, 2), (3, 3)]" 3 stan_lin]
  by (simp add: trained_eq)

theorem validate_whole_series_counterexample:
  "validate_model stan_lin 3 trained = Inr Empty \<and>
   validate_model stan_lin 3 trained \<noteq> Inl (Raise ''InsufficientDataError'')"
  by (simp add: validate_model_def validate_body_def trained_eq slice_to_def slice_bound_def)

subsection \<open>The percentage error of validation\<close>

lemma not_finite_fadd: "\<not> is_finite x \<or> \<not> is_finite y \<Longrightarrow> \<not> is_finite (fadd x y)"
  by (cases x; cases y) simp_all

lemma not_finite_foldl_fadd:
  "\<not> is_finite a \<or> (\<exists>x \<in> set xs. \<not> is_finite x) \<Longrightarrow> \<not> is_finite (foldl fadd a xs)"
proof (induction xs arbitrary: a)
  case Nil
  then show ?case by simp
next
  case (Cons x xs)
  show ?case
  proof (cases "is_finite a \<and> is_finite x")
    case True
    with Cons.prems have "\<exists>y \<in> set xs. \<not> is_finite y" by auto
    then show ?thesis using Cons.IH [of "fadd a x"] by simp
  next
    case False
    then have "\<not> is_finite (fadd a x)" by (intro not_finite_fadd) blast
    then show ?thesis using Cons.IH [of "fadd a x"] by simp
  qed
qed

lemma not_finite_fdiv: "\<not> is_finite x \<Longrightarrow> \<not> is_finite (fdiv x (Finite b))"
  by (cases x) simp_all

lemma not_finite_fmul: "\<not> is_finite x \<Longrightarrow> \<not> is_finite (fmul x (Finite 100))"
  by (cases x) simp_all

lemma not_finite_round2: "\<not> is_finite x \<Longrightarrow> \<not> is_finite (round2 x)"
proof -
  assume "\<not> is_finite x"
  then have "\<not> is_finite (fmul x (Finite 100))" by (rule not_finite_fmul)
  then have "\<not> is_finite (rint (fmul x (Finite 100)))"
    by (cases "fmul x (Finite 100)") simp_all
  then show ?thesis unfolding round2_def by (rule not_finite_fdiv)
qed

lemma not_finite_pct: "\<not> is_finite (fabs (fdiv x (Finite 0)))"
  by (cases x) simp_all

lemma not_finite_np_mean: "\<exists>x \<in> set xs. \<not> is_finite x \<Longrightarrow> \<not> is_finite (np_mean xs)"
proof -
  assume a: "\<exists>x \<in> set xs. \<not> is_finite x"
  then have "xs \<noteq> []" by auto
  moreover from a have "\<not> is_finite (foldl fadd (Finite 0) xs)"
    by (intro not_finite_foldl_fadd) blast
  ultimately show ?thesis by (simp add: np_mean_def not_finite_fdiv)
qed

lemma not_finite_mean_abs_pct:
  assumes "length y_true = length y_pred" and "0 \<in> set y_true"
  shows "\<not> is_finite (mean_abs_pct y_true y_pred)"
proof -
  from assms(2) obtain i where i: "i < length y_true" "y_true ! i = 0"
    by (auto simp: in_set_conv_nth)
  let ?f = "\<lambda>t p. fabs (fdiv (fsub (Finite t) (Finite p)) (Finite t))"
  have eq: "map2 ?f y_true y_pred ! i = ?f 0 (y_pred ! i)"
    using i assms(1) by simp
  have nf: "\<not> is_finite (map2 ?f y_true y_pred ! i)"
    unfolding eq by (rule not_finite_pct)
  have mem: "map2 ?f y_true y_pred ! i \<in> set (map2 ?f y_true y_pred)"
    using i assms(1) by (intro nth_mem) simp
  from nf mem have "\<exists>x \<in> set (map2 ?f y_true y_pred). \<not> is_finite x" by (rule bexI)
  then have "\<not> is_finite (np_mean (map2 ?f y_true y_pred))" by (rule not_finite_np_mean)
  then show ?thesis unfolding mean_abs_pct_def by (rule not_finite_fmul)
qed

lemma validate_body_mape:
  assumes "validate_body st tsize td = Inr r"
  shows "\<exists>y_pred. length y_pred = length (slice_from td (- tsize)) \<and>
           mape r = round2 (mean_abs_pct (map (\<lambda>row. f64_round (real_of_int (snd row)))
                                              (slice_from td (- tsize))) y_pred)"
proof -
  let ?test = "slice_from td (- tsize)"
  from assms obtain temp_model where
    fit: "Prophet_fit st (Prophet validation_config None) (slice_to td (- tsize)) = Inr temp_model"
    by (cases "Prophet_fit st (Prophet validation_config None) (slice_to td (- tsize))")
       (simp_all add: validate_body_def Let_def del: Prophet_fit.simps)
  from assms fit obtain fc where
    pr: "Prophet_predict temp_model (map fst ?test) = Inr fc"
    by (cases "Prophet_predict temp_model (map fst ?test)")
       (simp_all add: validate_body_def Let_def del: Prophet_fit.simps)
  from assms fit pr have
    m: "mape r = round2 (mean_abs_pct (map (\<lambda>row. f64_round (real_of_int (snd row))) ?test)
                                       (map (\<lambda>row. yhat (snd row)) fc))"
    by (auto simp add: validate_body_def Let_def simp del: Prophet_fit.simps)
  obtain cfg fitted where tm: "temp_model = Prophet cfg fitted" by (cases temp_model)
  from pr tm obtain dates c where f: "fitted = Some (dates, c)"
    by (cases fitted) auto
  from pr tm f have "length fc = length ?test"
    by (auto split: if_splits)
  with m show ?thesis
    by (intro exI [of _ "map (\<lambda>row. yhat (snd row)) fc"]) simp
qed

text \<open>
  Whenever validation returns its metrics and a held-out count is zero, the percentage
  error is not finite: every held-out point enters the mean, none is left out.
\<close>

lemma mape_not_finite_at_zero:
  assumes "validate_model st tsize s = Inr (Filled r)"
      and "training_data s = Some td"
      and "0 \<in> snd ` set (slice_from td (- tsize))"
  shows "\<not> is_finite (mape r)"
proof -
  from assms(1,2) have "validate_body st tsize td = Inr r"
    by (auto simp: validate_model_def split: option.splits sum.splits)
  from validate_body_mape [OF this] obtain y_pred where
    l: "length y_pred = length (slice_from td (- tsize))"
    and m: "mape r = round2 (mean_abs_pct (map (\<lambda>row. f64_round (real_of_int (snd row)))
                                               (slice_from td (- tsize))) y_pred)"
    by blast
  from assms(3) obtain row where row: "row \<in> set (slice_from td (- tsize))" "snd row = 0"
    by force
  have z: "0 \<in> set (map (\<lambda>row. f64_round (real_of_int (snd row))) (slice_from td (- tsize)))"
    unfolding set_map image_iff using row by (intro bexI [of _ row]) (simp_all add: f64_round_0)
  have "\<not> is_finite (mean_abs_pct (map (\<lambda>row. f64_round (real_of_int (snd row)))
                                       (slice_from td (- tsize))) y_pred)"
    using l z by (intro not_finite_mean_abs_pct) simp_all
  then show ?thesis unfolding m by (rule not_finite_round2)
qed

lemma sqrt_900: "sqrt 900 = 30"
  using real_sqrt_abs [of 30] by simp

text \<open>
  C4. The claim that a held-out point whose true count is zero is excluded from the
  percentage error does not hold of the code. The forecaster is trained on the counts
  1, 2, 0 of three consecutive days and validated on the last day, for which the model
  predicts 30: the term \<open>|0 - 30| / 0\<close> enters the mean, and the metrics returned carry
  the percentage error \<open>inf\<close>.
\<close>

theorem mape_divides_by_zero_count:
  "training_data trained_zero = Some [(1, 1), (2, 2), (3, 0)] \<and>
   validate_model stan_lin 1 trained_zero = Inr (Filled metrics_zero) \<and>
   mape metrics_zero = PosInf"
  by (simp add: validate_model_def validate_body_def trained_zero_def train_model_def
        prepare_data_def zero_last_def init_def slice_to_def slice_from_def
        slice_bound_def stan_lin_def mean_abs_pct_def np_mean_def mean_absolute_error_def
        mean_squared_error_def metrics_zero_def sqrt_900 eval_values)

subsection \<open>Evaluating the sample forecasts\<close>

lemmas eval_forecast =
  generate_forecast_def forecast_body_def summarise_def iloc_def to_prediction_def
  growth_metric_def py_int_def upto.simps Let_def eval_values

lemma curve_lin:
  "the (stan_lin cfg df) =
     (\<lambda>d. \<lparr>trend = 10 * of_int d, yhat = 10 * of_int d,
            yhat_lower = 10 * of_int d - 1, yhat_upper = 10 * of_int d + 1\<rparr>)"
  by (simp add: stan_lin_def)

lemma forecast_lin_eq: "fst (generate_forecast 2 trained) = Inr (Filled forecast_lin)"
  by (simp add: trained_eq curve_lin forecast_lin_def eval_forecast)

lemma generate_forecast_lin:
  "generate_forecast 2 trained = (Inr (Filled forecast_lin), snd (generate_forecast 2 trained))"
  using forecast_lin_eq by (simp add: prod_eq_iff)

subsection \<open>The shape of a forecast\<close>

lemma py_int_mono:
  assumes "x \<le> y"
  shows "py_int x \<le> py_int y"
proof (cases "0 \<le> x")
  case True
  with assms have "0 \<le> y" by simp
  with True assms show ?thesis by (simp add: py_int_def floor_mono)
next
  case False
  show ?thesis
  proof (cases "0 \<le> y")
    case True
    have "\<lceil>x\<rceil> \<le> 0" using False by (simp add: ceiling_le_iff)
    moreover have "0 \<le> \<lfloor>y\<rfloor>" using True by simp
    ultimately have "\<lceil>x\<rceil> \<le> \<lfloor>y\<rfloor>" by (rule order_trans)
    moreover have "py_int x = \<lceil>x\<rceil>" using False by (simp add: py_int_def)
    moreover have "py_int y = \<lfloor>y\<rfloor>" using True by (simp add: py_int_def)
    ultimately show ?thesis by simp
  next
    case ny: False
    with False assms show ?thesis by (simp add: py_int_def ceiling_mono)
  qed
qed

lemma py_int_width_upper:
  "l \<le> u \<Longrightarrow> real_of_int (py_int u - py_int l) < u - l + 1"
  unfolding py_int_def by (auto; linarith)

lemma py_int_width_lower:
  "u - l - 2 < real_of_int (py_int u - py_int l)"
  unfolding py_int_def by (auto; linarith)

lemma generate_forecast_Filled:
  assumes "generate_forecast h s = (Inr (Filled r), s')"
      and "model s = Some (Prophet cfg (Some (dates, c)))"
  shows "\<exists>future td.
           make_future_dataframe (Prophet cfg (Some (dates, c))) h = Inr future \<and> future \<noteq> [] \<and>
           training_data s = Some td \<and>
           summarise h (map (\<lambda>d. (d, c d)) (sort future)) (Some td) = Inr r \<and>
           s' = s\<lparr>forecast_result := Some (map (\<lambda>d. (d, c d)) (sort future))\<rparr>"
proof -
  let ?m = "Prophet cfg (Some (dates, c))"
  from assms have fb: "forecast_body h ?m s = (Inr r, s')"
    by (simp add: generate_forecast_def split: prod.splits sum.splits)
  obtain future where mf: "make_future_dataframe ?m h = Inr future"
    using fb by (cases "make_future_dataframe ?m h") (simp_all add: forecast_body_def del: make_future_dataframe.simps)
  have ne: "future \<noteq> []"
  proof
    assume "future = []"
    then have "Prophet_predict ?m future = Inl (Raise ''ValueError'')" by simp
    with fb mf show False by (simp add: forecast_body_def del: make_future_dataframe.simps)
  qed
  then have pp: "Prophet_predict ?m future = Inr (map (\<lambda>d. (d, c d)) (sort future))" by simp
  from fb have su: "summarise h (map (\<lambda>d. (d, c d)) (sort future)) (training_data s) = Inr r"
    and st: "s' = s\<lparr>forecast_result := Some (map (\<lambda>d. (d, c d)) (sort future))\<rparr>"
    using ne by (simp_all add: forecast_body_def mf del: make_future_dataframe.simps)
  obtain td where td: "training_data s = Some td"
    using su by (cases "training_data s") (simp_all add: summarise_def)
  from mf ne td su st show ?thesis by auto
qed

lemma summarise_predictions:
  assumes "summarise h fc (Some td) = Inr r"
  shows "predictions r = map to_prediction (filter (\<lambda>row. Max (set (map fst td)) < fst row) fc)"
  using assms
  by (auto simp: summarise_def Let_def split: sum.splits if_splits)

lemma predictions_shape:
  assumes "generate_forecast h s = (Inr (Filled r), s')"
      and "model s = Some (Prophet cfg (Some (dates, c)))"
  shows "\<exists>ds. sorted ds \<and> predictions r = map (\<lambda>d. to_prediction (d, c d)) ds"
proof -
  from generate_forecast_Filled [OF assms] obtain future td where
    s: "summarise h (map (\<lambda>d. (d, c d)) (sort future)) (Some td) = Inr r"
    by blast
  let ?L = "Max (set (map fst td))"
  have "predictions r = map (\<lambda>d. to_prediction (d, c d)) (filter (\<lambda>d. ?L < d) (sort future))"
    by (simp add: summarise_predictions [OF s] filter_map comp_def)
  moreover have "sorted (filter (\<lambda>d. ?L < d) (sort future))"
    by (simp add: sorted_wrt_filter)
  ultimately show ?thesis by blast
qed

lemma iloc_in_set: "iloc xs i = Inr x \<Longrightarrow> x \<in> set xs"
  by (auto simp: iloc_def split: if_splits)

lemma generate_forecast_summarise:
  assumes "generate_forecast h s = (Inr (Filled r), s')"
  shows "\<exists>fc td. training_data s = Some td \<and> summarise h fc (Some td) = Inr r \<and>
                 forecast_result s' = Some fc"
proof -
  from assms obtain m fc where
    "summarise h fc (training_data s) = Inr r" and "forecast_result s' = Some fc"
    by (auto simp: generate_forecast_def forecast_body_def
             split: sum.splits option.splits prod.splits)
  moreover from this obtain td where "training_data s = Some td"
    by (cases "training_data s") (simp_all add: summarise_def)
  ultimately show ?thesis by auto
qed

lemma summarise_milestones:
  assumes "summarise h fc (Some td) = Inr r"
      and "m \<in> {growth_30_day r, growth_90_day r, growth_180_day r}"
  shows "\<exists>row \<in> set fc. current_date r < fst row \<and> m = growth_metric (snd row) (current_vehicles r)"
proof -
  let ?ff = "filter (\<lambda>row. Max (set (map fst td)) < fst row) fc"
  from assms(1) obtain e30 e90 e180 where
    e: "e30 \<in> set ?ff" "e90 \<in> set ?ff" "e180 \<in> set ?ff"
    and r: "growth_30_day r = growth_metric (snd e30) (snd (last td))"
           "growth_90_day r = growth_metric (snd e90) (snd (last td))"
           "growth_180_day r = growth_metric (snd e180) (snd (last td))"
           "current_vehicles r = snd (last td)"
           "current_date r = Max (set (map fst td))"
    by (auto simp: summarise_def Let_def split: sum.splits if_splits dest!: iloc_in_set)
  from assms(2) e r show ?thesis by auto
qed

subsection \<open>Length and dates of a forecast\<close>

lemma last_sorted_Max: "sorted xs \<Longrightarrow> xs \<noteq> [] \<Longrightarrow> last xs = Max (set xs)"
proof -
  assume s: "sorted xs" and ne: "xs \<noteq> []"
  have "Max (set xs) = last xs"
  proof (rule Max_eqI)
    show "finite (set xs)" by simp
    show "last xs \<in> set xs" using ne by simp
    fix y assume "y \<in> set xs"
    then obtain i where i: "i < length xs" "xs ! i = y" by (auto simp: in_set_conv_nth)
    then have "xs ! i \<le> xs ! (length xs - 1)"
      using s by (intro sorted_nth_mono) auto
    with i ne show "y \<le> last xs" by (simp add: last_conv_nth)
  qed
  then show ?thesis by simp
qed

lemma prepare_data_frame:
  assumes "prepare_data data = Inr df"
  shows "length df = length data" and "fst ` set df = date ` set data"
  using assms by (auto simp: prepare_data_def image_image split: if_splits)

lemma train_model_fitted:
  assumes "2 \<le> length data" and "prepare_data data = Inr df" and "st train_config df = Some c"
  shows "train_model st data s0 =
           (Inr True,
            s0\<lparr>training_data := Some df,
                model := Some (Prophet train_config (Some (sort (remdups (map fst df)), c)))\<rparr>)"
  using assms prepare_data_frame(1) [OF assms(2)]
  by (simp add: train_model_def Let_def)

lemma make_future_dataframe_sorted:
  assumes "sorted dates" and "dates \<noteq> []" and "0 \<le> h"
  shows "make_future_dataframe (Prophet cfg (Some (dates, c))) h =
           Inr (dates @ [Max (set dates) + 1 .. Max (set dates) + h])"
    and "sort (dates @ [Max (set dates) + 1 .. Max (set dates) + h]) =
           dates @ [Max (set dates) + 1 .. Max (set dates) + h]"
proof -
  show "make_future_dataframe (Prophet cfg (Some (dates, c))) h =
           Inr (dates @ [Max (set dates) + 1 .. Max (set dates) + h])"
    using assms by (simp add: last_sorted_Max)
  have "x \<le> y" if "x \<in> set dates" and "y \<in> set [Max (set dates) + 1 .. Max (set dates) + h]"
    for x y
  proof -
    from that(1) have "x \<le> Max (set dates)" by simp
    moreover from that(2) have "Max (set dates) + 1 \<le> y" by simp
    ultimately show ?thesis by linarith
  qed
  with assms(1) have "sorted (dates @ [Max (set dates) + 1 .. Max (set dates) + h])"
    unfolding sorted_append by simp
  then show "sort (dates @ [Max (set dates) + 1 .. Max (set dates) + h]) =
           dates @ [Max (set dates) + 1 .. Max (set dates) + h]"
    by (rule sorted_sort_id)
qed

lemma future_rows:
  "filter (\<lambda>row. Max (set dates) < fst row)
          (map (\<lambda>d. (d, c d)) (dates @ [Max (set dates) + 1 .. Max (set dates) + h])) =
   map (\<lambda>d. (d, c d)) [Max (set dates) + 1 .. Max (set dates) + h]"
proof -
  have "filter (\<lambda>d. Max (set dates) < d) dates = []"
    by (auto simp: filter_empty_conv not_less)
  moreover have "filter (\<lambda>d. Max (set dates) < d) [Max (set dates) + 1 .. Max (set dates) + h] =
                   [Max (set dates) + 1 .. Max (set dates) + h]"
    by (auto simp: filter_id_conv)
  ultimately show ?thesis by (simp add: filter_map comp_def)
qed

lemma iloc_Inr: "0 \<le> i \<Longrightarrow> i < int (length xs) \<Longrightarrow> iloc xs i = Inr (xs ! nat i)"
  by (simp add: iloc_def)

lemma iloc_last: "xs \<noteq> [] \<Longrightarrow> iloc xs (- 1) = Inr (xs ! nat (int (length xs) - 1))"
  by (cases xs) (simp_all add: iloc_def)

lemma summarise_Inr:
  assumes "td \<noteq> []" and "filter (\<lambda>row. Max (set (map fst td)) < fst row) fc \<noteq> []"
  shows "\<exists>r. summarise h fc (Some td) = Inr r"
proof -
  let ?ff = "filter (\<lambda>row. Max (set (map fst td)) < fst row) fc"
  let ?n = "int (length ?ff)"
  from assms(2) have n: "0 < ?n" by simp
  have a: "iloc ?ff (min 29 (?n - 1)) = Inr (?ff ! nat (min 29 (?n - 1)))"
    using n by (intro iloc_Inr) auto
  have b: "iloc ?ff (min 89 (?n - 1)) = Inr (?ff ! nat (min 89 (?n - 1)))"
    using n by (intro iloc_Inr) auto
  have c: "iloc ?ff (min 179 (?n - 1)) = Inr (?ff ! nat (min 179 (?n - 1)))"
    using n by (intro iloc_Inr) auto
  have d: "iloc ?ff (- 1) = Inr (?ff ! nat (?n - 1))"
    using assms(2) by (rule iloc_last)
  from c d obtain x where
    x: "(if 180 \<le> ?n then iloc ?ff (min 179 (?n - 1)) else iloc ?ff (- 1)) = Inr x"
    by (cases "180 \<le> ?n") simp_all
  show ?thesis
    unfolding summarise_def Let_def option.case
    by (simp only: assms(1) if_False a b x sum.case) blast
qed

text \<open>
  Training on at least two records with a fit that succeeds, then forecasting a positive
  number of days: the state that is left and the predictions that are returned.
\<close>

lemma generate_forecast_after_fit:
  assumes "2 \<le> length data" and "prepare_data data = Inr df" and "st train_config df = Some c"
      and "0 < h"
  shows "fst (train_model st data s0) = Inr True"
    and "\<exists>r. generate_forecast h (snd (train_model st data s0)) =
               (Inr (Filled r),
                (snd (train_model st data s0))
                  \<lparr>forecast_result :=
                     Some (map (\<lambda>d. (d, c d))
                            (sort (remdups (map fst df)) @
                             [Max (date ` set data) + 1 .. Max (date ` set data) + h]))\<rparr>) \<and>
             predictions r =
               map (\<lambda>d. to_prediction (d, c d))
                 [Max (date ` set data) + 1 .. Max (date ` set data) + h]"
    and "sort (remdups (map fst df)) \<noteq> []"
    and "Max (set (sort (remdups (map fst df)))) = Max (date ` set data)"
proof -
  let ?dates = "sort (remdups (map fst df))"
  let ?m = "Prophet train_config (Some (?dates, c))"
  let ?s1 = "s0\<lparr>training_data := Some df, model := Some ?m\<rparr>"
  have tm: "train_model st data s0 = (Inr True, ?s1)"
    using assms(1-3) by (rule train_model_fitted)
  then show "fst (train_model st data s0) = Inr True" by simp
  from assms(1) prepare_data_frame [OF assms(2)] have df: "df \<noteq> []"
    and L: "Max (set (map fst df)) = Max (date ` set data)" by auto
  have sd: "sorted ?dates" and set_d: "set ?dates = set (map fst df)"
    by simp_all
  show ne: "?dates \<noteq> []"
  proof
    assume "?dates = []"
    then have "set ?dates = {}" by (simp only: list.set)
    with df show False by simp
  qed
  show LL: "Max (set ?dates) = Max (date ` set data)"
    unfolding set_d by (rule L)
  let ?L = "Max (set ?dates)"
  let ?fd = "?dates @ [?L + 1 .. ?L + h]"
  let ?fc = "map (\<lambda>d. (d, c d)) ?fd"
  from assms(4) have h0: "0 \<le> h" by simp
  have mf: "make_future_dataframe ?m h = Inr ?fd"
    using sd ne h0 by (rule make_future_dataframe_sorted(1))
  have so: "sort ?fd = ?fd"
    using sd ne h0 by (rule make_future_dataframe_sorted(2))
  have fne: "?fd \<noteq> []" using ne by simp
  have pp: "Prophet_predict ?m ?fd = Inr ?fc"
    using fne so by simp
  have ff: "filter (\<lambda>row. Max (set (map fst df)) < fst row) ?fc = map (\<lambda>d. (d, c d)) [?L + 1 .. ?L + h]"
    using future_rows [of ?dates c h] unfolding set_d .
  have "filter (\<lambda>row. Max (set (map fst df)) < fst row) ?fc \<noteq> []"
    unfolding ff using assms(4) by simp
  from summarise_Inr [OF df this] obtain r where r: "summarise h ?fc (Some df) = Inr r" by blast
  have ms: "model ?s1 = Some ?m" and td: "training_data ?s1 = Some df" by simp_all
  have fb: "forecast_body h ?m ?s1 = (Inr r, ?s1\<lparr>forecast_result := Some ?fc\<rparr>)"
    unfolding forecast_body_def by (simp only: mf pp td r sum.case)
  have gf: "generate_forecast h ?s1 = (Inr (Filled r), ?s1\<lparr>forecast_result := Some ?fc\<rparr>)"
    unfolding generate_forecast_def by (simp only: ms fb option.case prod.case sum.case)
  have pr: "predictions r = map (\<lambda>d. to_prediction (d, c d)) [?L + 1 .. ?L + h]"
    using summarise_predictions [OF r] ff by (simp add: comp_def)
  from gf pr have
    "generate_forecast h (snd (train_model st data s0)) =
       (Inr (Filled r), (snd (train_model st data s0))\<lparr>forecast_result := Some ?fc\<rparr>) \<and>
     predictions r = map (\<lambda>d. to_prediction (d, c d)) [?L + 1 .. ?L + h]"
    unfolding tm snd_conv by (rule conjI)
  then show "\<exists>r. generate_forecast h (snd (train_model st data s0)) =
               (Inr (Filled r),
                (snd (train_model st data s0))
                  \<lparr>forecast_result :=
                     Some (map (\<lambda>d. (d, c d))
                            (sort (remdups (map fst df)) @
                             [Max (date ` set data) + 1 .. Max (date ` set data) + h]))\<rparr>) \<and>
             predictions r =
               map (\<lambda>d. to_prediction (d, c d))
                 [Max (date ` set data) + 1 .. Max (date ` set data) + h]"
    unfolding LL by (rule exI)
qed

text \<open>
  C3. For every series of at least two records on which the fit succeeds and every
  positive horizon \<open>h\<close>, training followed by \<open>generate_forecast h\<close> returns a filled
  result with exactly \<open>h\<close> predictions; their dates are the \<open>h\<close> consecutive days that
  follow the last observed date, so they are strictly increasing and start on the day
  after it. That the numerical fit itself succeeds is the hypothesis on the library.
\<close>

theorem forecast_covers_horizon:
  assumes "2 \<le> length data" and "prepare_data data = Inr df" and "st train_config df = Some c"
      and "0 < h"
  shows "\<exists>r s2. fst (train_model st data s0) = Inr True \<and>
           generate_forecast h (snd (train_model st data s0)) = (Inr (Filled r), s2) \<and>
           int (length (predictions r)) = h \<and>
           map p_date (predictions r) =
             [Max (date ` set data) + 1 .. Max (date ` set data) + h] \<and>
           sorted_wrt (<) (map p_date (predictions r))"
proof -
  let ?L = "Max (date ` set data)"
  from generate_forecast_after_fit(2) [of data df st c h s0, OF assms] obtain r s2 where
    gf: "generate_forecast h (snd (train_model st data s0)) = (Inr (Filled r), s2)"
    and pr: "predictions r = map (\<lambda>d. to_prediction (d, c d)) [?L + 1 .. ?L + h]"
    by blast
  have dates: "map p_date (predictions r) = [?L + 1 .. ?L + h]"
    unfolding pr by (simp add: to_prediction_def comp_def)
  have "int (length (map p_date (predictions r))) = h"
    unfolding dates using assms(4) by simp
  then have len: "int (length (predictions r)) = h" by simp
  have "sorted_wrt (<) [?L + 1 .. ?L + h]" by (rule sorted_wrt_upto)
  with generate_forecast_after_fit(1) [of data df st c h s0, OF assms] gf len dates show ?thesis
    by auto
qed

theorem forecast_covers_horizon_witness:
  "2 \<le> length three_days \<and> prepare_data three_days = Inr [(1, 1), (2, 2), (3, 3)] \<and>
   stan_lin train_config [(1, 1), (2, 2), (3, 3)] \<noteq> None \<and> (0::int) < 2 \<and>
   fst (train_model stan_lin three_days init) = Inr True \<and>
   fst (generate_forecast 2 (snd (train_model stan_lin three_days init))) = Inr (Filled forecast_lin) \<and>
   map p_date (predictions forecast_lin) = [4, 5]"
proof -
  have a: "2 \<le> length three_days" by (simp add: three_days_def)
  have b: "prepare_data three_days = Inr [(1, 1), (2, 2), (3, 3)]"
    by (simp add: prepare_data_def three_days_def)
  have c: "stan_lin train_config [(1, 1), (2, 2), (3, 3)] =
             Some (the (stan_lin train_config [(1, 1), (2, 2), (3, 3)]))"
    by (simp add: stan_lin_def)
  have d: "(0::int) < 2" by simp
  from forecast_covers_horizon
         [of three_days "[(1, 1), (2, 2), (3, 3)]" stan_lin
             "the (stan_lin train_config [(1, 1), (2, 2), (3, 3)])" 2 init, OF a b c d]
       forecast_lin_eq a b
  show ?thesis by (auto simp: trained_def stan_lin_def forecast_lin_def)
qed

subsection \<open>Bounds of a prediction\<close>

lemma prediction_of_curve:
  assumes "generate_forecast h s = (Inr (Filled r), s')"
      and "model s = Some (Prophet cfg (Some (dates, c)))"
      and "p \<in> set (predictions r)"
  shows "p = to_prediction (p_date p, c (p_date p))"
proof -
  from predictions_shape [OF assms(1,2)] obtain ds where
    "predictions r = map (\<lambda>d. to_prediction (d, c d)) ds" by blast
  with assms(3) obtain d where "p = to_prediction (d, c d)" by auto
  then show ?thesis by (simp add: to_prediction_def)
qed

lemma three_days_frame: "prepare_data three_days = Inr [(1, 1), (2, 2), (3, 3)]"
  by (simp add: prepare_data_def three_days_def)

lemma three_days_last: "Max (date ` set three_days) = 3"
  by (simp add: three_days_def)

lemma upto_4_5: "[3 + 1 .. 3 + 2] = [4, 5::int]" "[3 + 1 .. 3 + 1] = [4::int]"
  by (simp_all add: upto.simps)

text \<open>
  C7 (as amended). Every prediction returned by \<open>generate_forecast\<close> holds the three
  values of the fitted curve on its date, each truncated toward zero by \<open>int()\<close>; the
  code compares nothing. Truncation is monotone, so \<open>lower_bound \<le> predicted_vehicles\<close>
  holds whenever the curve has \<open>yhat_lower \<le> yhat\<close> on that date, and
  \<open>predicted_vehicles \<le> upper_bound\<close> whenever it has \<open>yhat \<le> yhat_upper\<close> there.
\<close>

theorem bounds_copied_order_kept:
  assumes "generate_forecast h s = (Inr (Filled r), s')"
      and "model s = Some (Prophet cfg (Some (dates, c)))"
      and "p \<in> set (predictions r)"
  shows "lower_bound p = py_int (yhat_lower (c (p_date p))) \<and>
         predicted_vehicles p = py_int (yhat (c (p_date p))) \<and>
         upper_bound p = py_int (yhat_upper (c (p_date p))) \<and>
         (yhat_lower (c (p_date p)) \<le> yhat (c (p_date p)) \<longrightarrow>
            lower_bound p \<le> predicted_vehicles p) \<and>
         (yhat (c (p_date p)) \<le> yhat_upper (c (p_date p)) \<longrightarrow>
            predicted_vehicles p \<le> upper_bound p)"
proof -
  let ?e = "c (p_date p)"
  have p: "p = to_prediction (p_date p, ?e)"
    using assms by (rule prediction_of_curve)
  have l: "lower_bound p = py_int (yhat_lower ?e)"
    and y: "predicted_vehicles p = py_int (yhat ?e)"
    and u: "upper_bound p = py_int (yhat_upper ?e)"
    by (subst p, simp add: to_prediction_def)+
  show ?thesis unfolding l y u by (simp add: py_int_mono)
qed

theorem bounds_copied_order_kept_witness:
  "fst (generate_forecast 2 trained) = Inr (Filled forecast_lin) \<and>
   predictions forecast_lin ! 1 \<in> set (predictions forecast_lin) \<and>
   p_date (predictions forecast_lin ! 1) = 5 \<and>
   yhat_lower (the (stan_lin train_config [(1, 1), (2, 2), (3, 3)]) 5) = 49 \<and>
   yhat (the (stan_lin train_config [(1, 1), (2, 2), (3, 3)]) 5) = 50 \<and>
   yhat_upper (the (stan_lin train_config [(1, 1), (2, 2), (3, 3)]) 5) = 51 \<and>
   lower_bound (predictions forecast_lin ! 1) = 49 \<and>
   predicted_vehicles (predictions forecast_lin ! 1) = 50 \<and>
   upper_bound (predictions forecast_lin ! 1) = 51"
proof -
  have m: "model trained = Some (Prophet train_config
             (Some ([1, 2, 3], the (stan_lin train_config [(1, 1), (2, 2), (3, 3)]))))"
    by (simp add: trained_eq)
  have p: "predictions forecast_lin ! 1 \<in> set (predictions forecast_lin)"
    by (simp add: forecast_lin_def)
  from bounds_copied_order_kept [OF generate_forecast_lin m p] forecast_lin_eq p
  show ?thesis by (simp add: forecast_lin_def curve_lin py_int_def)
qed

theorem bounds_crossed_counterexample:
  "(case fst (generate_forecast 1 trained_cross) of
      Inr (Filled r) \<Rightarrow>
        map (\<lambda>p. (p_date p, lower_bound p, predicted_vehicles p, upper_bound p)) (predictions r)
    | _ \<Rightarrow> []) = [(4, 11, 10, 12)]"
proof -
  have a: "2 \<le> length three_days" by (simp add: three_days_def)
  have c: "stan_cross train_config [(1, 1), (2, 2), (3, 3)] =
             Some (\<lambda>d. \<lparr>trend = 10, yhat = 10, yhat_lower = 11, yhat_upper = 12\<rparr>)"
    by (simp add: stan_cross_def)
  have h: "(0::int) < 1" by simp
  from generate_forecast_after_fit(2)
         [of three_days "[(1, 1), (2, 2), (3, 3)]" stan_cross
             "\<lambda>d. \<lparr>trend = 10, yhat = 10, yhat_lower = 11, yhat_upper = 12\<rparr>" 1 init,
          OF a three_days_frame c h]
  obtain r where
    "fst (generate_forecast 1 trained_cross) = Inr (Filled r)" and
    "predictions r =
       map (\<lambda>d. to_prediction (d, \<lparr>trend = 10, yhat = 10, yhat_lower = 11, yhat_upper = 12\<rparr>)) [4]"
    unfolding three_days_last upto_4_5 trained_cross_def by auto
  then show ?thesis by (simp add: to_prediction_def py_int_def)
qed

text \<open>
  C6 (as amended). For every fitted model and horizon, the returned bounds of a prediction
  are the curve's bounds on its date truncated toward zero, and the predictions are in date
  order. The code does not enforce growing widths. For two predictions of which the later
  has the wider band in the curve, the returned width of the later can still fall below
  that of the earlier, by at most 2.
\<close>

theorem bound_width_after_truncation:
  assumes "generate_forecast h s = (Inr (Filled r), s')"
      and "model s = Some (Prophet cfg (Some (dates, c)))"
      and "i \<le> j" and "j < length (predictions r)"
  shows "lower_bound (predictions r ! j) = py_int (yhat_lower (c (p_date (predictions r ! j)))) \<and>
         upper_bound (predictions r ! j) = py_int (yhat_upper (c (p_date (predictions r ! j)))) \<and>
         p_date (predictions r ! i) \<le> p_date (predictions r ! j) \<and>
         (yhat_lower (c (p_date (predictions r ! i))) \<le> yhat_upper (c (p_date (predictions r ! i))) \<and>
          yhat_upper (c (p_date (predictions r ! i))) - yhat_lower (c (p_date (predictions r ! i)))
            \<le> yhat_upper (c (p_date (predictions r ! j))) - yhat_lower (c (p_date (predictions r ! j)))
          \<longrightarrow>
            upper_bound (predictions r ! i) - lower_bound (predictions r ! i) - 2
              \<le> upper_bound (predictions r ! j) - lower_bound (predictions r ! j))"
proof -
  from predictions_shape [OF assms(1,2)] obtain ds where
    ds: "sorted ds" "predictions r = map (\<lambda>d. to_prediction (d, c d)) ds" by blast
  from ds(2) assms(3,4) have len: "j < length ds" "i < length ds" by auto
  have pi: "predictions r ! i = to_prediction (ds ! i, c (ds ! i))"
    and pj: "predictions r ! j = to_prediction (ds ! j, c (ds ! j))"
    using ds(2) len by auto
  have le: "ds ! i \<le> ds ! j"
    using ds(1) assms(3) len by (simp add: sorted_nth_mono)
  let ?li = "yhat_lower (c (ds ! i))" and ?ui = "yhat_upper (c (ds ! i))"
  let ?lj = "yhat_lower (c (ds ! j))" and ?uj = "yhat_upper (c (ds ! j))"
  have w: "py_int ?ui - py_int ?li - 2 \<le> py_int ?uj - py_int ?lj"
    if o: "?li \<le> ?ui" and v: "?ui - ?li \<le> ?uj - ?lj"
  proof -
    have "real_of_int (py_int ?ui - py_int ?li) < ?ui - ?li + 1"
      using o by (rule py_int_width_upper)
    moreover have "?uj - ?lj - 2 < real_of_int (py_int ?uj - py_int ?lj)"
      by (rule py_int_width_lower)
    ultimately have "real_of_int (py_int ?ui - py_int ?li) - 3 < real_of_int (py_int ?uj - py_int ?lj)"
      using v by linarith
    then show ?thesis by linarith
  qed
  show ?thesis
    using le w by (simp add: pi pj to_prediction_def)
qed

theorem bound_width_after_truncation_witness:
  "(\<exists>r. fst (generate_forecast 2 trained_frac) = Inr (Filled r) \<and>
        (0::nat) \<le> 1 \<and> 1 < length (predictions r) \<and>
        map (\<lambda>p. (p_date p, lower_bound p, upper_bound p)) (predictions r) =
          [(4, 10, 20), (5, 11, 20)] \<and>
        upper_bound (predictions r ! 0) - lower_bound (predictions r ! 0) - 2
          \<le> upper_bound (predictions r ! 1) - lower_bound (predictions r ! 1)) \<and>
   yhat_lower (the (stan_frac train_config [(1, 1), (2, 2), (3, 3)]) 4) = 109 / 10 \<and>
   yhat_upper (the (stan_frac train_config [(1, 1), (2, 2), (3, 3)]) 4) = 20 \<and>
   yhat_lower (the (stan_frac train_config [(1, 1), (2, 2), (3, 3)]) 5) = 23 / 2 \<and>
   yhat_upper (the (stan_frac train_config [(1, 1), (2, 2), (3, 3)]) 5) = 209 / 10"
proof -
  let ?c = "the (stan_frac train_config [(1, 1), (2, 2), (3, 3)])"
  have a: "2 \<le> length three_days" by (simp add: three_days_def)
  have c: "stan_frac train_config [(1, 1), (2, 2), (3, 3)] = Some ?c"
    by (simp add: stan_frac_def)
  have h: "(0::int) < 2" by simp
  have m: "model trained_frac = Some (Prophet train_config (Some ([1, 2, 3], ?c)))"
    by (simp add: trained_frac_def train_model_def prepare_data_def three_days_def init_def
          stan_frac_def)
  from generate_forecast_after_fit(2)
         [of three_days "[(1, 1), (2, 2), (3, 3)]" stan_frac ?c 2 init, OF a three_days_frame c h]
  obtain r s2 where
    gf: "generate_forecast 2 trained_frac = (Inr (Filled r), s2)" and
    pr: "predictions r = map (\<lambda>d. to_prediction (d, ?c d)) [4, 5]"
    unfolding three_days_last upto_4_5 trained_frac_def by auto
  have i: "(0::nat) \<le> 1" by simp
  have j: "1 < length (predictions r)" by (simp add: pr)
  have v: "map (\<lambda>p. (p_date p, lower_bound p, upper_bound p)) (predictions r) =
             [(4, 10, 20), (5, 11, 20)]"
    by (simp add: pr to_prediction_def py_int_def stan_frac_def)
  from bound_width_after_truncation [OF gf m i j] gf j v
  show ?thesis by (auto simp: stan_frac_def)
qed

theorem bound_width_counterexample:
  "(case fst (generate_forecast 2 trained_frac) of
      Inr (Filled r) \<Rightarrow> map (\<lambda>p. (p_date p, lower_bound p, upper_bound p)) (predictions r)
    | _ \<Rightarrow> []) = [(4, 10, 20), (5, 11, 20)]"
proof -
  let ?c = "the (stan_frac train_config [(1, 1), (2, 2), (3, 3)])"
  have a: "2 \<le> length three_days" by (simp add: three_days_def)
  have c: "stan_frac train_config [(1, 1), (2, 2), (3, 3)] = Some ?c"
    by (simp add: stan_frac_def)
  have h: "(0::int) < 2" by simp
  from generate_forecast_after_fit(2)
         [of three_days "[(1, 1), (2, 2), (3, 3)]" stan_frac ?c 2 init, OF a three_days_frame c h]
  obtain r where
    "fst (generate_forecast 2 trained_frac) = Inr (Filled r)" and
    "predictions r = map (\<lambda>d. to_prediction (d, ?c d)) [4, 5]"
    unfolding three_days_last upto_4_5 trained_frac_def by auto
  then show ?thesis by (simp add: to_prediction_def py_int_def stan_frac_def)
qed

subsection \<open>Growth percentage of a checkpoint\<close>

lemma forecast_tie_eq: "fst (generate_forecast 1 trained_tie) = Inr (Filled forecast_tie)"
  by (simp add: trained_tie_def train_model_def prepare_data_def two_days_def init_def
        stan_tie_def forecast_tie_def eval_forecast)

lemma generate_forecast_tie:
  "generate_forecast 1 trained_tie = (Inr (Filled forecast_tie), snd (generate_forecast 1 trained_tie))"
  using forecast_tie_eq by (simp add: prod_eq_iff)

text \<open>
  C5 (as amended). When the last observed value is not zero, the growth percentage of each
  checkpoint is \<open>round(((yhat - last_observed) / last_observed) * 100, 2)\<close> as \<open>float64\<close>
  arithmetic computes it: the difference, the quotient and the product are each rounded to
  the nearest \<open>float64\<close>, and the result is rounded to two decimals by NumPy. Here
  \<open>yhat\<close> is that of the checkpoint's future row, the row whose truncated \<open>yhat\<close> is
  the checkpoint's \<open>predicted_vehicles\<close>.
\<close>

theorem growth_percentage_rounded:
  assumes "generate_forecast h s = (Inr (Filled r), s')"
      and "m \<in> {growth_30_day r, growth_90_day r, growth_180_day r}"
      and "current_vehicles r \<noteq> 0"
  shows "\<exists>fc row. forecast_result s' = Some fc \<and> row \<in> set fc \<and> current_date r < fst row \<and>
           m_predicted_vehicles m = py_int (yhat (snd row)) \<and>
           growth_percentage m =
             round2 (fmul (fdiv (fsub (Finite (yhat (snd row)))
                                      (Finite (f64_round (of_int (current_vehicles r)))))
                                (Finite (f64_round (of_int (current_vehicles r)))))
                          (Finite 100))"
proof -
  from generate_forecast_summarise [OF assms(1)] obtain fc td where
    s: "summarise h fc (Some td) = Inr r" and f: "forecast_result s' = Some fc" by blast
  from summarise_milestones [OF s assms(2)] obtain row where
    row: "row \<in> set fc" "current_date r < fst row"
         "m = growth_metric (snd row) (current_vehicles r)" by blast
  from row(3) have
    "m_predicted_vehicles m = py_int (yhat (snd row)) \<and>
     growth_percentage m =
       round2 (fmul (fdiv (fsub (Finite (yhat (snd row)))
                                (Finite (f64_round (of_int (current_vehicles r)))))
                          (Finite (f64_round (of_int (current_vehicles r)))))
                    (Finite 100))"
    by (simp add: growth_metric_def Let_def)
  with f row(1,2) show ?thesis by blast
qed

theorem growth_percentage_rounded_witness:
  "fst (generate_forecast 1 trained_tie) = Inr (Filled forecast_tie) \<and>
   current_vehicles forecast_tie \<noteq> 0 \<and>
   (\<exists>fc row. forecast_result (snd (generate_forecast 1 trained_tie)) = Some fc \<and> row \<in> set fc \<and>
      current_date forecast_tie < fst row \<and>
      m_predicted_vehicles (growth_30_day forecast_tie) = py_int (yhat (snd row)) \<and>
      growth_percentage (growth_30_day forecast_tie) =
        round2 (fmul (fdiv (fsub (Finite (yhat (snd row))) (Finite 160)) (Finite 160))
                     (Finite 100))) \<and>
   growth_percentage (growth_30_day forecast_tie) = Finite (8089590830664253 / 562949953421312) \<and>
   fmul (fdiv (fsub (Finite 183) (Finite 160)) (Finite 160)) (Finite 100) =
     Finite (8092405580431359 / 562949953421312)"
proof -
  have m: "growth_30_day forecast_tie
             \<in> {growth_30_day forecast_tie, growth_90_day forecast_tie, growth_180_day forecast_tie}"
    by simp
  have c: "current_vehicles forecast_tie \<noteq> 0" by (simp add: forecast_tie_def)
  have v: "f64_round (of_int (current_vehicles forecast_tie)) = 160"
    by (simp add: forecast_tie_def f64_round_values)
  have g: "growth_percentage (growth_30_day forecast_tie) =
             Finite (8089590830664253 / 562949953421312)"
    by (simp add: forecast_tie_def)
  have u: "fmul (fdiv (fsub (Finite 183) (Finite 160)) (Finite 160)) (Finite 100) =
             Finite (8092405580431359 / 562949953421312)"
    by (rule pct_183_160)
  from growth_percentage_rounded [OF generate_forecast_tie m c] forecast_tie_eq c g u
  show ?thesis unfolding v by simp
qed

theorem growth_percentage_counterexample:
  "fst (generate_forecast 2 trained) = Inr (Filled forecast_lin) \<and>
   growth_percentage (growth_30_day forecast_lin) = Finite (861285940943913 / 549755813888) \<and>
   growth_percentage (growth_30_day forecast_lin) \<noteq> Finite ((50 - 3) / 3 * 100) \<and>
   fmul (fdiv (fsub (Finite 50) (Finite 3)) (Finite 3)) (Finite 100) =
     Finite (3445136433698133 / 2199023255552) \<and>
   (case fst (generate_forecast 1 trained_zero) of
      Inr (Filled r) \<Rightarrow> (current_vehicles r, growth_percentage (growth_30_day r))
    | _ \<Rightarrow> (1, NaN)) = (0, PosInf)"
proof -
  have a: "growth_percentage (growth_30_day forecast_lin) = Finite (861285940943913 / 549755813888)"
    by (simp add: forecast_lin_def)
  have b: "fmul (fdiv (fsub (Finite 50) (Finite 3)) (Finite 3)) (Finite 100) =
             Finite (3445136433698133 / 2199023255552)"
    by (rule pct_50_3)
  have z: "(case fst (generate_forecast 1 trained_zero) of
              Inr (Filled r) \<Rightarrow> (current_vehicles r, growth_percentage (growth_30_day r))
            | _ \<Rightarrow> (1, NaN)) = (0, PosInf)"
    by (simp add: trained_zero_def train_model_def prepare_data_def zero_last_def init_def
          stan_lin_def eval_forecast)
  from forecast_lin_eq a b z show ?thesis by simp
qed

end
